theory Spec2Isabelle
  imports Main
begin

section \<open>Data model\<close>

text \<open>
  The controller (controllers/authController.js) talks to three tables through the
  Supabase client: \<^verbatim>\<open>users\<close>, \<^verbatim>\<open>profiles\<close> and \<^verbatim>\<open>sessions\<close>. A row carries the
  columns the controller writes. Timestamps (\<^verbatim>\<open>new Date()\<close>) are natural numbers.
\<close>

record user_row =
  u_id :: string
  u_email :: string
  u_password :: string
  u_name :: string
  u_phone :: "string option"
  u_created_at :: nat

record profile_row =
  p_id :: string
  p_user_id :: string
  p_avatar :: "string option"
  p_created_at :: nat

record session_row =
  s_id :: string
  s_user_id :: string
  s_ip_address :: "string option"
  s_user_agent :: "string option"
  s_last_activity :: nat

text \<open>The object \<^verbatim>\<open>userUpdates\<close> of updateProfile: a key is present or it is not.\<close>

record user_updates =
  upd_name :: "string option"
  upd_phone :: "string option"

text \<open>
  JSON values of response bodies. An object is the list of its members in the order
  the handler writes them, so that equal values serialise to the same bytes.
\<close>

datatype json = JNull | JStr string | JNum nat | JObj "(string \<times> json) list"

record response =
  status :: nat
  body :: json

text \<open>\<^verbatim>\<open>res.status(n).json({...})\<close>\<close>

definition json_response :: "nat \<Rightarrow> (string \<times> json) list \<Rightarrow> response" where
  "json_response n members = \<lparr>status = n, body = JObj members\<rparr>"

text \<open>
  A value of a parsed JSON body, as far as the handlers tell values apart: what kind
  it is and whether it is truthy. A number is taken as an integer; \<open>JS_object\<close> stands
  for any array or object.
\<close>

datatype js_value =
    JS_undefined | JS_null | JS_boolean bool | JS_number int | JS_string string | JS_object

fun js_truthy :: "js_value \<Rightarrow> bool" where
  "js_truthy JS_undefined = False"
| "js_truthy JS_null = False"
| "js_truthy (JS_boolean b) = b"
| "js_truthy (JS_number n) = (n \<noteq> 0)"
| "js_truthy (JS_string s) = (s \<noteq> [])"
| "js_truthy JS_object = True"

text \<open>
  The request. \<^verbatim>\<open>password\<close> is the JSON value the client sent: the handlers test it
  for truthiness and hand it to bcrypt as it is. The other body fields and the
  headers are absent (\<open>None\<close>, also for an explicit \<^verbatim>\<open>null\<close>) or a string, the documented
  request shape; they go to the store client and into responses only. \<open>req_ip\<close> is
  \<^verbatim>\<open>req.ip\<close> and \<open>remote_address\<close> is \<^verbatim>\<open>req.connection.remoteAddress\<close>.
\<close>

record request =
  b_email :: "string option"
  b_password :: js_value
  b_name :: "string option"
  b_phone :: "string option"
  b_avatar :: "string option"
  h_authorization :: "string option"
  h_user_agent :: "string option"
  req_ip :: "string option"
  remote_address :: "string option"

text \<open>
  JavaScript truthiness of an absent-or-string value: \<^verbatim>\<open>undefined\<close>, \<^verbatim>\<open>null\<close> and \<^verbatim>\<open>''\<close>
  are falsy.
\<close>

fun truthy :: "string option \<Rightarrow> bool" where
  "truthy None = False"
| "truthy (Some s) = (s \<noteq> [])"

text \<open>\<^verbatim>\<open>a || b\<close> and \<^verbatim>\<open>a || null\<close> on such values.\<close>

definition js_or :: "string option \<Rightarrow> string option \<Rightarrow> string option" where
  "js_or a b = (if truthy a then a else b)"

text \<open>The string held by a value already tested truthy.\<close>

fun str_of :: "string option \<Rightarrow> string" where
  "str_of None = []"
| "str_of (Some s) = s"

definition json_of :: "string option \<Rightarrow> json" where
  "json_of v = (case v of None \<Rightarrow> JNull | Some s \<Rightarrow> JStr s)"

section \<open>The environment of a request\<close>

text \<open>The payload handed to \<^verbatim>\<open>jwt.sign\<close> and recovered by \<^verbatim>\<open>jwt.verify\<close>.\<close>

record claims =
  c_id :: string
  c_email :: string

text \<open>
  Every place where the code awaits the store client. The client resolves to
  \<^verbatim>\<open>{data, error}\<close> and does not reject; whether a given call fails is decided outside
  the program, so the environment says it per call site.
\<close>

datatype callsite =
    SignupSelectUser | SignupInsertUser | SignupInsertProfile
  | SigninSelectUser | SigninInsertSession
  | GetProfileSelectUser | GetProfileSelectProfile
  | UpdateProfileUsers | UpdateProfileProfiles
  | LogoutDeleteSessions
  | GateResolveUser

text \<open>
  What the handlers take from outside: the process environment, the clock, the
  libraries bcrypt, jsonwebtoken and uuid, and the failures of the store. A library
  call returns \<open>Inr\<close> its value or \<open>Inl\<close> the message of the error it throws. The
  libraries are parameters: nothing is assumed about what they compute on strings.
  \<open>unauthorized_message\<close> is the wording of the answer to an unauthorized request, which
  the specification of the Authorization Gate leaves open.
\<close>

record env =
  JWT_SECRET :: "string option"
  NODE_ENV :: "string option"
  now :: nat
  uuidv4 :: "nat \<Rightarrow> string"
  bcrypt_hash :: "string \<Rightarrow> nat \<Rightarrow> string + string"
  bcrypt_compare :: "string \<Rightarrow> string \<Rightarrow> string + bool"
  jwt_sign :: "claims \<Rightarrow> string option \<Rightarrow> string \<Rightarrow> nat \<Rightarrow> string + string"
  jwt_verify :: "string \<Rightarrow> string option \<Rightarrow> nat \<Rightarrow> string + claims"
  fault :: "callsite \<Rightarrow> string option"
  unauthorized_message :: string

text \<open>
  \<^verbatim>\<open>bcrypt.hash(data, rounds)\<close> and \<^verbatim>\<open>bcrypt.compare(data, hash)\<close> check the type of
  \<^verbatim>\<open>data\<close> before they compute anything: data that is not a string (a Buffer cannot come
  out of a JSON body) makes the returned promise reject.
\<close>

definition bcrypt_hash_value :: "env \<Rightarrow> js_value \<Rightarrow> nat \<Rightarrow> string + string" where
  "bcrypt_hash_value e data rounds =
     (case data of
        JS_string s \<Rightarrow> bcrypt_hash e s rounds
      | _ \<Rightarrow> Inl ''data must be a string or Buffer and salt must either be a salt string or a number of rounds'')"

definition bcrypt_compare_value :: "env \<Rightarrow> js_value \<Rightarrow> string \<Rightarrow> string + bool" where
  "bcrypt_compare_value e data hash =
     (case data of
        JS_string s \<Rightarrow> bcrypt_compare e s hash
      | _ \<Rightarrow> Inl ''data and hash must be strings'')"

section \<open>The store\<close>

text \<open>The requests sent to the store, as the query builder describes them.\<close>

datatype db_call =
    UsersSelectByEmail string
  | UsersSelectById string
  | UsersInsert user_row
  | UsersUpdate user_updates string
  | ProfilesSelectByUser string
  | ProfilesInsert profile_row
  | ProfilesUpdate string string
  | SessionsInsert session_row
  | SessionsDelete string

fun is_write :: "db_call \<Rightarrow> bool" where
  "is_write (UsersSelectByEmail _) = False"
| "is_write (UsersSelectById _) = False"
| "is_write (ProfilesSelectByUser _) = False"
| "is_write _ = True"

text \<open>
  The world a handler runs in: the three tables, the store requests issued so far,
  the lines written with \<^verbatim>\<open>console.error\<close> (label and error message), and the number
  of identifiers drawn from \<^verbatim>\<open>uuidv4\<close>.
\<close>

record world =
  users :: "user_row list"
  profiles :: "profile_row list"
  sessions :: "session_row list"
  calls :: "db_call list"
  console :: "(string \<times> string) list"
  uuid_ctr :: nat

definition issue :: "db_call \<Rightarrow> world \<Rightarrow> world" where
  "issue c w = w\<lparr>calls := calls w @ [c]\<rparr>"

definition console_error :: "string \<Rightarrow> string \<Rightarrow> world \<Rightarrow> world" where
  "console_error label msg w = w\<lparr>console := console w @ [(label, msg)]\<rparr>"

definition fresh_uuid :: "env \<Rightarrow> world \<Rightarrow> string \<times> world" where
  "fresh_uuid e w = (uuidv4 e (uuid_ctr w), w\<lparr>uuid_ctr := Suc (uuid_ctr w)\<rparr>)"

text \<open>
  \<^verbatim>\<open>.single()\<close>: exactly one row is the data; no row or several rows are an error
  (PostgREST code PGRST116) with null data.
\<close>

definition PGRST116 :: string where
  "PGRST116 = ''JSON object requested, multiple (or no) rows returned''"

fun single :: "'a list \<Rightarrow> 'a option \<times> string option" where
  "single [r] = (Some r, None)"
| "single _ = (None, Some PGRST116)"

text \<open>\<^verbatim>\<open>from('users').select('*').eq('email', email).single()\<close>\<close>

definition users_select_by_email ::
  "env \<Rightarrow> callsite \<Rightarrow> string \<Rightarrow> world \<Rightarrow> (user_row option \<times> string option) \<times> world" where
  "users_select_by_email e site email w =
     (case fault e site of
        Some msg \<Rightarrow> ((None, Some msg), issue (UsersSelectByEmail email) w)
      | None \<Rightarrow> (single (filter (\<lambda>r. u_email r = email) (users w)),
                  issue (UsersSelectByEmail email) w))"

text \<open>\<^verbatim>\<open>from('users').select('id, email, name, phone, created_at').eq('id', userId).single()\<close>\<close>

definition users_select_by_id ::
  "env \<Rightarrow> callsite \<Rightarrow> string \<Rightarrow> world \<Rightarrow> (user_row option \<times> string option) \<times> world" where
  "users_select_by_id e site uid w =
     (case fault e site of
        Some msg \<Rightarrow> ((None, Some msg), issue (UsersSelectById uid) w)
      | None \<Rightarrow> (single (filter (\<lambda>r. u_id r = uid) (users w)),
                  issue (UsersSelectById uid) w))"

text \<open>\<^verbatim>\<open>from('users').insert([row]).select().single()\<close>: the inserted row comes back.\<close>

definition users_insert ::
  "env \<Rightarrow> callsite \<Rightarrow> user_row \<Rightarrow> world \<Rightarrow> (user_row option \<times> string option) \<times> world" where
  "users_insert e site row w =
     (case fault e site of
        Some msg \<Rightarrow> ((None, Some msg), issue (UsersInsert row) w)
      | None \<Rightarrow> ((Some row, None), issue (UsersInsert row) (w\<lparr>users := users w @ [row]\<rparr>)))"

text \<open>\<^verbatim>\<open>from('profiles').insert([row])\<close>: only the error is read.\<close>

definition profiles_insert ::
  "env \<Rightarrow> callsite \<Rightarrow> profile_row \<Rightarrow> world \<Rightarrow> string option \<times> world" where
  "profiles_insert e site row w =
     (case fault e site of
        Some msg \<Rightarrow> (Some msg, issue (ProfilesInsert row) w)
      | None \<Rightarrow> (None, issue (ProfilesInsert row) (w\<lparr>profiles := profiles w @ [row]\<rparr>)))"

text \<open>\<^verbatim>\<open>from('sessions').insert([row])\<close>\<close>

definition sessions_insert ::
  "env \<Rightarrow> callsite \<Rightarrow> session_row \<Rightarrow> world \<Rightarrow> string option \<times> world" where
  "sessions_insert e site row w =
     (case fault e site of
        Some msg \<Rightarrow> (Some msg, issue (SessionsInsert row) w)
      | None \<Rightarrow> (None, issue (SessionsInsert row) (w\<lparr>sessions := sessions w @ [row]\<rparr>)))"

text \<open>\<^verbatim>\<open>from('profiles').select('avatar').eq('user_id', userId).single()\<close>\<close>

definition profiles_select_by_user ::
  "env \<Rightarrow> callsite \<Rightarrow> string \<Rightarrow> world \<Rightarrow> (profile_row option \<times> string option) \<times> world" where
  "profiles_select_by_user e site uid w =
     (case fault e site of
        Some msg \<Rightarrow> ((None, Some msg), issue (ProfilesSelectByUser uid) w)
      | None \<Rightarrow> (single (filter (\<lambda>r. p_user_id r = uid) (profiles w)),
                  issue (ProfilesSelectByUser uid) w))"

text \<open>
  \<^verbatim>\<open>from('users').update(userUpdates).eq('id', userId)\<close>: the keys present in the
  object overwrite the columns of every row with that id; the other columns stay.
\<close>

definition apply_user_updates :: "user_updates \<Rightarrow> user_row \<Rightarrow> user_row" where
  "apply_user_updates upd r =
     r\<lparr>u_name := (case upd_name upd of Some n \<Rightarrow> n | None \<Rightarrow> u_name r),
       u_phone := (case upd_phone upd of Some p \<Rightarrow> Some p | None \<Rightarrow> u_phone r)\<rparr>"

definition users_update_eq_id ::
  "env \<Rightarrow> callsite \<Rightarrow> user_updates \<Rightarrow> string \<Rightarrow> world \<Rightarrow> string option \<times> world" where
  "users_update_eq_id e site upd uid w =
     (case fault e site of
        Some msg \<Rightarrow> (Some msg, issue (UsersUpdate upd uid) w)
      | None \<Rightarrow> (None, issue (UsersUpdate upd uid)
          (w\<lparr>users := map (\<lambda>r. if u_id r = uid then apply_user_updates upd r else r) (users w)\<rparr>)))"

text \<open>\<^verbatim>\<open>from('profiles').update({ avatar }).eq('user_id', userId)\<close>\<close>

definition profiles_update_eq_user ::
  "env \<Rightarrow> callsite \<Rightarrow> string \<Rightarrow> string \<Rightarrow> world \<Rightarrow> string option \<times> world" where
  "profiles_update_eq_user e site avatar uid w =
     (case fault e site of
        Some msg \<Rightarrow> (Some msg, issue (ProfilesUpdate avatar uid) w)
      | None \<Rightarrow> (None, issue (ProfilesUpdate avatar uid)
          (w\<lparr>profiles := map (\<lambda>r. if p_user_id r = uid then r\<lparr>p_avatar := Some avatar\<rparr> else r)
                            (profiles w)\<rparr>)))"

text \<open>\<^verbatim>\<open>from('sessions').delete().eq('user_id', userId)\<close>: every row of that user goes.\<close>

definition sessions_delete ::
  "env \<Rightarrow> callsite \<Rightarrow> string \<Rightarrow> world \<Rightarrow> string option \<times> world" where
  "sessions_delete e site uid w =
     (case fault e site of
        Some msg \<Rightarrow> (Some msg, issue (SessionsDelete uid) w)
      | None \<Rightarrow> (None, issue (SessionsDelete uid)
          (w\<lparr>sessions := filter (\<lambda>r. s_user_id r \<noteq> uid) (sessions w)\<rparr>)))"

section \<open>The controller\<close>

text \<open>
  The \<^verbatim>\<open>catch\<close> block every handler ends with: the error is logged and answered with
  status 500, its message in the field \<^verbatim>\<open>error\<close>.
\<close>

definition server_error :: "string \<Rightarrow> world \<Rightarrow> response \<times> world" where
  "server_error msg w =
     (json_response 500 [(''message'', JStr ''Terjadi kesalahan pada server''), (''error'', JStr msg)],
      console_error ''Server error:'' msg w)"

text \<open>
  The body of the \<^verbatim>\<open>try\<close> block of signup (lines 14 to 85), entered once the three
  required fields are truthy. \<open>Inl\<close> is an exception on its way to the \<^verbatim>\<open>catch\<close> block.
  Of the existence lookup only \<^verbatim>\<open>data\<close> is bound. Reading \<^verbatim>\<open>newUser.email\<close> of a null
  \<^verbatim>\<open>newUser\<close> is a TypeError.
\<close>

definition signup_try ::
  "env \<Rightarrow> string \<Rightarrow> js_value \<Rightarrow> string \<Rightarrow> string option \<Rightarrow> world \<Rightarrow> (string + response) \<times> world" where
  "signup_try e email password name phone w =
     (let ((existingUser, _), w1) = users_select_by_email e SignupSelectUser email w in
      case existingUser of
        Some _ \<Rightarrow> (Inr (json_response 400 [(''message'', JStr ''Email sudah terdaftar'')]), w1)
      | None \<Rightarrow>
         (case bcrypt_hash_value e password 10 of
            Inl thrown \<Rightarrow> (Inl thrown, w1)
          | Inr hashedPassword \<Rightarrow>
             (let (userId, w2) = fresh_uuid e w1;
                  ((newUser, error), w3) =
                     users_insert e SignupInsertUser
                       \<lparr>u_id = userId, u_email = email, u_password = hashedPassword,
                        u_name = name, u_phone = js_or phone None, u_created_at = now e\<rparr> w2
              in case error of
                   Some msg \<Rightarrow>
                     (Inr (json_response 500
                             [(''message'', JStr ''Gagal mendaftarkan pengguna''), (''error'', JStr msg)]),
                      console_error ''Signup error:'' msg w3)
                 | None \<Rightarrow>
                    (let (profileId, w4) = fresh_uuid e w3;
                         (profileError, w5) =
                            profiles_insert e SignupInsertProfile
                              \<lparr>p_id = profileId, p_user_id = userId, p_avatar = None,
                               p_created_at = now e\<rparr> w4;
                         w6 = (case profileError of
                                 Some msg \<Rightarrow> console_error ''Profile creation error:'' msg w5
                               | None \<Rightarrow> w5)
                     in case newUser of
                          None \<Rightarrow> (Inl ''Cannot read properties of null'', w6)
                        | Some nu \<Rightarrow>
                           (case jwt_sign e \<lparr>c_id = userId, c_email = u_email nu\<rparr>
                                   (JWT_SECRET e) ''7d'' (now e) of
                              Inl thrown \<Rightarrow> (Inl thrown, w6)
                            | Inr token \<Rightarrow>
                               (Inr (json_response 201
                                       [(''message'', JStr ''Pendaftaran berhasil''),
                                        (''user'', JObj [(''id'', JStr (u_id nu)),
                                                         (''email'', JStr (u_email nu)),
                                                         (''name'', JStr (u_name nu))]),
                                        (''token'', JStr token)]),
                                w6))))))"

text \<open>signup (lines 7 to 90).\<close>

definition signup :: "env \<Rightarrow> request \<Rightarrow> world \<Rightarrow> response \<times> world" where
  "signup e req w =
     (if \<not> truthy (b_email req) \<or> \<not> js_truthy (b_password req) \<or> \<not> truthy (b_name req)
      then (json_response 400 [(''message'', JStr ''Email, password, dan nama wajib diisi'')], w)
      else (case signup_try e (str_of (b_email req)) (b_password req)
                   (str_of (b_name req)) (b_phone req) w of
              (Inr res, w') \<Rightarrow> (res, w')
            | (Inl thrown, w') \<Rightarrow> server_error thrown w'))"

text \<open>
  The body of the \<^verbatim>\<open>try\<close> block of signin (lines 102 to 153). \<open>ip\<close> and \<open>userAgent\<close>
  are read from the request before the block.
\<close>

definition signin_try ::
  "env \<Rightarrow> string \<Rightarrow> js_value \<Rightarrow> string option \<Rightarrow> string option \<Rightarrow> world \<Rightarrow> (string + response) \<times> world" where
  "signin_try e email password ip userAgent w =
     (let ((user, error), w1) = users_select_by_email e SigninSelectUser email w in
      case (error, user) of
        (Some _, _) \<Rightarrow> (Inr (json_response 401 [(''message'', JStr ''Email atau password salah'')]), w1)
      | (None, None) \<Rightarrow> (Inr (json_response 401 [(''message'', JStr ''Email atau password salah'')]), w1)
      | (None, Some usr) \<Rightarrow>
         (case bcrypt_compare_value e password (u_password usr) of
            Inl thrown \<Rightarrow> (Inl thrown, w1)
          | Inr isPasswordValid \<Rightarrow>
             if \<not> isPasswordValid
             then (Inr (json_response 401 [(''message'', JStr ''Email atau password salah'')]), w1)
             else
              (case jwt_sign e \<lparr>c_id = u_id usr, c_email = u_email usr\<rparr>
                      (JWT_SECRET e) ''7d'' (now e) of
                 Inl thrown \<Rightarrow> (Inl thrown, w1)
               | Inr token \<Rightarrow>
                  (let (sessionId, w2) = fresh_uuid e w1;
                       (sessionError, w3) =
                          sessions_insert e SigninInsertSession
                            \<lparr>s_id = sessionId, s_user_id = u_id usr, s_ip_address = ip,
                             s_user_agent = userAgent, s_last_activity = now e\<rparr> w2;
                       w4 = (case sessionError of
                               Some msg \<Rightarrow> console_error ''Session creation error:'' msg w3
                             | None \<Rightarrow> w3)
                   in (Inr (json_response 200
                              [(''message'', JStr ''Login berhasil''),
                               (''user'', JObj [(''id'', JStr (u_id usr)),
                                                (''email'', JStr (u_email usr)),
                                                (''name'', JStr (u_name usr))]),
                               (''token'', JStr token)]),
                       w4)))))"

text \<open>signin (lines 93 to 158).\<close>

definition signin :: "env \<Rightarrow> request \<Rightarrow> world \<Rightarrow> response \<times> world" where
  "signin e req w =
     (let userAgent = h_user_agent req;
          ip = js_or (req_ip req) (remote_address req)
      in if \<not> truthy (b_email req) \<or> \<not> js_truthy (b_password req)
         then (json_response 400 [(''message'', JStr ''Email dan password wajib diisi'')], w)
         else (case signin_try e (str_of (b_email req)) (b_password req) ip userAgent w of
                 (Inr res, w') \<Rightarrow> (res, w')
               | (Inl thrown, w') \<Rightarrow> server_error thrown w'))"

text \<open>
  The three handlers below read \<^verbatim>\<open>req.user.id\<close>, which the authentication middleware
  sets before they run; the row attached to the request is their argument \<open>user\<close>. Their store calls resolve and nothing else in their \<^verbatim>\<open>try\<close> blocks
  throws, so their \<^verbatim>\<open>catch\<close> blocks have no branch here.

  getProfile (lines 161 to 193). \<^verbatim>\<open>...user\<close> copies the selected columns, none when
  \<^verbatim>\<open>user\<close> is null; \<^verbatim>\<open>profile?.avatar || null\<close> follows.
\<close>

definition getProfile :: "env \<Rightarrow> user_row \<Rightarrow> request \<Rightarrow> world \<Rightarrow> response \<times> world" where
  "getProfile e user req w =
     (let userId = u_id user;
          ((usr, userError), w1) = users_select_by_id e GetProfileSelectUser userId w
      in case userError of
           Some _ \<Rightarrow> (json_response 404 [(''message'', JStr ''Pengguna tidak ditemukan'')], w1)
         | None \<Rightarrow>
            (let ((profile, profileError), w2) =
                    profiles_select_by_user e GetProfileSelectProfile userId w1
             in (json_response 200
                   [(''user'', JObj
                      ((case usr of
                          None \<Rightarrow> []
                        | Some r \<Rightarrow> [(''id'', JStr (u_id r)), (''email'', JStr (u_email r)),
                                     (''name'', JStr (u_name r)), (''phone'', json_of (u_phone r)),
                                     (''created_at'', JNum (u_created_at r))])
                       @ [(''avatar'',
                           json_of (js_or (case profile of None \<Rightarrow> None | Some p \<Rightarrow> p_avatar p)
                                          None))]))],
                 w2)))"

text \<open>updateProfile (lines 196 to 234).\<close>

definition updateProfile :: "env \<Rightarrow> user_row \<Rightarrow> request \<Rightarrow> world \<Rightarrow> response \<times> world" where
  "updateProfile e user req w =
     (let name = b_name req; phone = b_phone req; avatar = b_avatar req;
          userId = u_id user;
          userUpdates = \<lparr>upd_name = (if truthy name then name else None),
                         upd_phone = (if truthy phone then phone else None)\<rparr>;
          (userError, w1) =
             (if upd_name userUpdates \<noteq> None \<or> upd_phone userUpdates \<noteq> None
              then users_update_eq_id e UpdateProfileUsers userUpdates userId w
              else (None, w))
      in case userError of
           Some msg \<Rightarrow>
             (json_response 500 [(''message'', JStr ''Gagal memperbarui profil''), (''error'', JStr msg)],
              w1)
         | None \<Rightarrow>
            (let (profileError, w2) =
                    (if truthy avatar
                     then profiles_update_eq_user e UpdateProfileProfiles (str_of avatar) userId w1
                     else (None, w1))
             in case profileError of
                  Some msg \<Rightarrow>
                    (json_response 500
                       [(''message'', JStr ''Gagal memperbarui avatar''), (''error'', JStr msg)],
                     w2)
                | None \<Rightarrow>
                    (json_response 200 [(''message'', JStr ''Profil berhasil diperbarui'')], w2)))"

text \<open>logout (lines 237 to 257).\<close>

definition logout :: "env \<Rightarrow> user_row \<Rightarrow> request \<Rightarrow> world \<Rightarrow> response \<times> world" where
  "logout e user req w =
     (let userId = u_id user;
          (error, w1) = sessions_delete e LogoutDeleteSessions userId w;
          w2 = (case error of
                  Some msg \<Rightarrow> console_error ''Session deletion error:'' msg w1
                | None \<Rightarrow> w1)
      in (json_response 200 [(''message'', JStr ''Logout berhasil'')], w2))"

section \<open>The Authorization Gate and the routes\<close>

text \<open>
  middleware/auth.js and routes/auth.js are not among the sources. The two READMEs
  each print a middleware, for different stores and with different handling of a
  failed lookup, so neither is taken for the code; the gate and the routing are
  modelled from the specification (sections 4.3, 4.5, 6, 7 and 8).
\<close>

definition startsWith :: "string \<Rightarrow> string \<Rightarrow> bool" where
  "startsWith s p = (take (length p) s = p)"

text \<open>
  Modelled from the spec: the outcomes of the Authorization Gate (middleware/auth.js
  is missing). A request is \<open>Rejected\<close> with an authentication-required, an
  invalid-token or a not-found signal, or \<open>Resolved\<close> to an identity.
\<close>

datatype gate_signal = AuthenticationRequired | InvalidToken | NotFound

datatype gate_result = Rejected gate_signal | Resolved user_row

text \<open>
  Modelled from the spec: the Authorization Gate (middleware/auth.js is missing).
  Extract: the header must have the form \<^verbatim>\<open>Bearer <token>\<close>, the token being what
  follows the seven characters of the prefix; a missing or malformed header is
  rejected with the authentication-required signal. Verify: the token goes
  to the verifier, and Invalid is rejected with the invalid-token signal. Resolve: the
  identity named in the claims is looked up through the store client, and absence is
  rejected with the not-found signal. No side effect beyond the lookup.
\<close>

definition authorization_gate :: "env \<Rightarrow> request \<Rightarrow> world \<Rightarrow> gate_result \<times> world" where
  "authorization_gate e req w =
     (case h_authorization req of
        None \<Rightarrow> (Rejected AuthenticationRequired, w)
      | Some header \<Rightarrow>
         if \<not> startsWith header ''Bearer '' then (Rejected AuthenticationRequired, w)
         else
          (case jwt_verify e (drop 7 header) (JWT_SECRET e) (now e) of
             Inl invalid \<Rightarrow> (Rejected InvalidToken, w)
           | Inr decoded \<Rightarrow>
              (case users_select_by_id e GateResolveUser (c_id decoded) w of
                 ((None, _), w1) \<Rightarrow> (Rejected NotFound, w1)
               | ((Some identity, _), w1) \<Rightarrow> (Resolved identity, w1))))"

text \<open>
  Modelled from the spec: the answer of the HTTP layer to a rejection (middleware/auth.js
  is missing). Every signal maps to unauthorized: status 401 and a uniform message.
\<close>

definition unauthorized :: "env \<Rightarrow> gate_signal \<Rightarrow> response" where
  "unauthorized e signal = json_response 401 [(''message'', JStr (unauthorized_message e))]"

text \<open>
  Modelled from the spec: a protected endpoint (routes/auth.js is missing). On
  success the resolved identity is attached to the request and the handler proceeds;
  a rejection is answered without the handler.
\<close>

definition protected ::
  "(env \<Rightarrow> user_row \<Rightarrow> request \<Rightarrow> world \<Rightarrow> response \<times> world)
     \<Rightarrow> env \<Rightarrow> request \<Rightarrow> world \<Rightarrow> response \<times> world" where
  "protected handler e req w =
     (case authorization_gate e req w of
        (Rejected signal, w') \<Rightarrow> (unauthorized e signal, w')
      | (Resolved user, w') \<Rightarrow> handler e user req w')"

text \<open>
  Modelled from the spec: the routing table of section 6 (routes/auth.js is missing).
  signup and signin are open; logout and the two profile routes require authorization.
\<close>

datatype route = POST_signup | POST_signin | POST_logout | GET_profile | PUT_profile

fun router :: "route \<Rightarrow> env \<Rightarrow> request \<Rightarrow> world \<Rightarrow> response \<times> world" where
  "router POST_signup = signup"
| "router POST_signin = signin"
| "router POST_logout = protected logout"
| "router GET_profile = protected getProfile"
| "router PUT_profile = protected updateProfile"

section \<open>A concrete environment\<close>

text \<open>
  Stand-ins for the libraries and a small store, to run the handlers on concrete
  requests. The stand-in for bcrypt prefixes the password, the one for jsonwebtoken
  writes the subject after \<^verbatim>\<open>jwt.\<close>; the theorems below hold for every environment and
  use these only where a concrete request is evaluated.
\<close>

definition stub_env :: env where
  "stub_env =
     \<lparr>JWT_SECRET = Some ''s3cret'', NODE_ENV = Some ''production'', now = 1000,
      uuidv4 = (\<lambda>n. ''uuid-'' @ replicate n CHR ''x''),
      bcrypt_hash = (\<lambda>pw cost. Inr (''$2b$'' @ pw)),
      bcrypt_compare = (\<lambda>pw h. Inr (h = ''$2b$'' @ pw)),
      jwt_sign = (\<lambda>c secret expiresIn t.
                    case secret of None \<Rightarrow> Inl ''secretOrPrivateKey must have a value''
                                 | Some k \<Rightarrow> Inr (''jwt.'' @ c_id c)),
      jwt_verify = (\<lambda>token secret t.
                      if take 4 token = ''jwt.'' then Inr \<lparr>c_id = drop 4 token, c_email = []\<rparr>
                      else Inl ''jwt malformed''),
      fault = (\<lambda>site. None),
      unauthorized_message = ''Unauthorized''\<rparr>"

definition alice :: user_row where
  "alice = \<lparr>u_id = ''u1'', u_email = ''a@x.com'', u_password = ''$2b$pw123456'',
            u_name = ''A'', u_phone = None, u_created_at = 1\<rparr>"

definition stub_world :: world where
  "stub_world =
     \<lparr>users = [alice], profiles = [],
      sessions = [\<lparr>s_id = ''s1'', s_user_id = ''u1'', s_ip_address = None, s_user_agent = None, s_last_activity = 2\<rparr>,
                  \<lparr>s_id = ''s2'', s_user_id = ''u2'', s_ip_address = None, s_user_agent = None, s_last_activity = 3\<rparr>],
      calls = [], console = [], uuid_ctr = 0\<rparr>"

definition blank_request :: request where
  "blank_request =
     \<lparr>b_email = None, b_password = JS_undefined, b_name = None, b_phone = None, b_avatar = None,
      h_authorization = None, h_user_agent = None, req_ip = None, remote_address = None\<rparr>"

definition failing :: "callsite \<Rightarrow> env \<Rightarrow> env" where
  "failing site e = e\<lparr>fault := (fault e)(site \<mapsto> ''connection timed out'')\<rparr>"

definition signup_request :: request where
  "signup_request =
     blank_request\<lparr>b_email := Some ''b@x.com'', b_password := JS_string ''pw123456'', b_name := Some ''B''\<rparr>"

definition signin_request :: request where
  "signin_request =
     blank_request\<lparr>b_email := Some ''a@x.com'', b_password := JS_string ''pw123456''\<rparr>"

definition bearer_request :: "string \<Rightarrow> request" where
  "bearer_request token = blank_request\<lparr>h_authorization := Some (''Bearer '' @ token)\<rparr>"

section \<open>Properties\<close>

lemmas store_defs =
  users_select_by_email_def users_select_by_id_def users_insert_def profiles_insert_def
  sessions_insert_def profiles_select_by_user_def users_update_eq_id_def
  profiles_update_eq_user_def sessions_delete_def issue_def
  console_error_def fresh_uuid_def json_response_def server_error_def

lemmas fixture_defs =
  stub_env_def stub_world_def alice_def blank_request_def failing_def signup_request_def
  signin_request_def bearer_request_def bcrypt_hash_value_def bcrypt_compare_value_def

lemma gate_reads_users:
  "users w1 = users w2 \<Longrightarrow> fst (authorization_gate e req w1) = fst (authorization_gate e req w2)"
  by (auto simp: authorization_gate_def users_select_by_id_def
      split: option.splits sum.splits prod.splits)

lemma single_no_row: "\<forall>r. xs \<noteq> [r] \<Longrightarrow> single xs = (None, Some PGRST116)"
  by (cases xs rule: single.cases) simp_all

text \<open>
  The two 401 answers of signin are one and the same: when no user has the email and
  when a user has it but \<^verbatim>\<open>bcrypt.compare\<close> resolves to false.
\<close>

lemma signin_failure_uniform_when_compare_answers:
  assumes present: "truthy (b_email req)" "js_truthy (b_password req)"
    and absent: "\<forall>r \<in> set (users wa). u_email r \<noteq> str_of (b_email req)"
    and registered: "\<exists>r \<in> set (users wb). u_email r = str_of (b_email req)"
    and mismatch: "\<forall>r \<in> set (users wb). u_email r = str_of (b_email req) \<longrightarrow>
                     bcrypt_compare_value eb (b_password req) (u_password r) = Inr False"
  shows "fst (signin ea req wa) = fst (signin eb req wb) \<and>
         fst (signin ea req wa) = \<lparr>status = 401, body = JObj [(''message'', JStr ''Email atau password salah'')]\<rparr>"
proof -
  let ?em = "str_of (b_email req)"
  let ?r401 = "\<lparr>status = 401, body = JObj [(''message'', JStr ''Email atau password salah'')]\<rparr>"
  have nil: "filter (\<lambda>r. u_email r = ?em) (users wa) = []"
    using absent by (simp add: filter_empty_conv)
  have one: "fst (signin ea req wa) = ?r401"
    using present nil
    by (simp add: signin_def signin_try_def users_select_by_email_def json_response_def Let_def
        split: option.splits)
  have two: "fst (signin eb req wb) = ?r401"
  proof (cases "fault eb SigninSelectUser")
    case (Some msg)
    then show ?thesis using present
      by (simp add: signin_def signin_try_def users_select_by_email_def json_response_def Let_def)
  next
    case None
    show ?thesis
    proof (cases "\<exists>r. filter (\<lambda>r. u_email r = ?em) (users wb) = [r]")
      case True
      then obtain r where r: "filter (\<lambda>r. u_email r = ?em) (users wb) = [r]" by blast
      then have "r \<in> set (filter (\<lambda>r. u_email r = ?em) (users wb))" by simp
      then have "bcrypt_compare_value eb (b_password req) (u_password r) = Inr False"
        using mismatch by simp
      then show ?thesis using present None r
        by (simp add: signin_def signin_try_def users_select_by_email_def json_response_def Let_def)
    next
      case False
      then have "single (filter (\<lambda>r. u_email r = ?em) (users wb)) = (None, Some PGRST116)"
        by (simp add: single_no_row)
      then show ?thesis using present None
        by (simp add: signin_def signin_try_def users_select_by_email_def json_response_def Let_def)
    qed
  qed
  show ?thesis using one two by simp
qed

text \<open>
  Claim C1. The two failures of signin are not answered alike for every request with
  both fields present. A password that is a truthy JSON number passes the check of
  line 98; for an unknown email the answer is the 401 of line 111, for a registered
  email \<^verbatim>\<open>bcrypt.compare\<close> rejects in line 115 and the \<^verbatim>\<open>catch\<close> block answers 500 with
  the message of the library. The answer tells whether the email is registered.
\<close>

theorem signin_nonstring_password_reveals_registration:
  "fst (signin stub_env (signin_request\<lparr>b_password := JS_number 12345\<rparr>)
          (stub_world\<lparr>users := []\<rparr>)) =
     \<lparr>status = 401, body = JObj [(''message'', JStr ''Email atau password salah'')]\<rparr>
   \<and> fst (signin stub_env (signin_request\<lparr>b_password := JS_number 12345\<rparr>) stub_world) =
     \<lparr>status = 500,
      body = JObj [(''message'', JStr ''Terjadi kesalahan pada server''),
                   (''error'', JStr ''data and hash must be strings'')]\<rparr>"
  by (simp add: signin_def signin_try_def store_defs fixture_defs Let_def js_or_def)

theorem signin_nonstring_password_reveals_registration_witness:
  "fst (signin stub_env (signin_request\<lparr>b_password := JS_number 12345\<rparr>)
          (stub_world\<lparr>users := []\<rparr>)) \<noteq>
   fst (signin stub_env (signin_request\<lparr>b_password := JS_number 12345\<rparr>) stub_world)"
  using signin_nonstring_password_reveals_registration by simp

text \<open>
  Claim C3. The handlers never read \<^verbatim>\<open>NODE_ENV\<close>: with \<^verbatim>\<open>NODE_ENV=production\<close> a signup
  whose user insert fails is answered with status 500 and the store's error message in
  the field \<^verbatim>\<open>error\<close>.
\<close>

theorem signup_error_detail_in_production:
  "NODE_ENV (failing SignupInsertUser stub_env) = Some ''production'' \<and>
   fst (signup (failing SignupInsertUser stub_env) signup_request stub_world)
     = \<lparr>status = 500,
        body = JObj [(''message'', JStr ''Gagal mendaftarkan pengguna''),
                     (''error'', JStr ''connection timed out'')]\<rparr>"
  by (simp add: signup_def signup_try_def store_defs fixture_defs Let_def js_or_def)

theorem signup_error_detail_in_production_witness:
  "status (fst (signup (failing SignupInsertUser stub_env) signup_request stub_world)) = 500"
  using signup_error_detail_in_production by simp

text \<open>
  Claim C4. When the profile insert of signup, the session insert of signin or the
  session delete of logout fails, the error is written to the console and the handler
  still answers 201 with user and token, 200 with user and token, and 200 with the
  logout message.
\<close>

theorem secondary_write_failures_swallowed:
  "(truthy (b_email req) \<and> js_truthy (b_password req) \<and> truthy (b_name req)
      \<and> (\<forall>r \<in> set (users w). u_email r \<noteq> str_of (b_email req))
      \<and> bcrypt_hash_value e (b_password req) 10 = Inr h
      \<and> fault e SignupInsertUser = None
      \<and> jwt_sign e \<lparr>c_id = uuidv4 e (uuid_ctr w), c_email = str_of (b_email req)\<rparr>
            (JWT_SECRET e) ''7d'' (now e) = Inr token
      \<and> fault e SignupInsertProfile = Some msg
    \<longrightarrow> fst (signup e req w) =
          \<lparr>status = 201,
           body = JObj [(''message'', JStr ''Pendaftaran berhasil''),
                        (''user'', JObj [(''id'', JStr (uuidv4 e (uuid_ctr w))),
                                         (''email'', JStr (str_of (b_email req))),
                                         (''name'', JStr (str_of (b_name req)))]),
                        (''token'', JStr token)]\<rparr>
        \<and> console (snd (signup e req w)) = console w @ [(''Profile creation error:'', msg)])
   \<and> (truthy (b_email req_in) \<and> js_truthy (b_password req_in)
      \<and> fault e_in SigninSelectUser = None
      \<and> filter (\<lambda>r. u_email r = str_of (b_email req_in)) (users w_in) = [usr]
      \<and> bcrypt_compare_value e_in (b_password req_in) (u_password usr) = Inr True
      \<and> jwt_sign e_in \<lparr>c_id = u_id usr, c_email = u_email usr\<rparr> (JWT_SECRET e_in) ''7d'' (now e_in) = Inr token_in
      \<and> fault e_in SigninInsertSession = Some msg_in
    \<longrightarrow> fst (signin e_in req_in w_in) =
          \<lparr>status = 200,
           body = JObj [(''message'', JStr ''Login berhasil''),
                        (''user'', JObj [(''id'', JStr (u_id usr)),
                                         (''email'', JStr (u_email usr)),
                                         (''name'', JStr (u_name usr))]),
                        (''token'', JStr token_in)]\<rparr>
        \<and> console (snd (signin e_in req_in w_in)) = console w_in @ [(''Session creation error:'', msg_in)])
   \<and> (fault e_out LogoutDeleteSessions = Some msg_out
    \<longrightarrow> fst (logout e_out user req_out w_out) =
          \<lparr>status = 200, body = JObj [(''message'', JStr ''Logout berhasil'')]\<rparr>
        \<and> console (snd (logout e_out user req_out w_out)) = console w_out @ [(''Session deletion error:'', msg_out)])"
proof (intro conjI impI)
  assume a: "truthy (b_email req) \<and> js_truthy (b_password req) \<and> truthy (b_name req)
      \<and> (\<forall>r \<in> set (users w). u_email r \<noteq> str_of (b_email req))
      \<and> bcrypt_hash_value e (b_password req) 10 = Inr h
      \<and> fault e SignupInsertUser = None
      \<and> jwt_sign e \<lparr>c_id = uuidv4 e (uuid_ctr w), c_email = str_of (b_email req)\<rparr>
            (JWT_SECRET e) ''7d'' (now e) = Inr token
      \<and> fault e SignupInsertProfile = Some msg"
  then have nil: "filter (\<lambda>r. u_email r = str_of (b_email req)) (users w) = []"
    by (simp add: filter_empty_conv)
  show "fst (signup e req w) =
          \<lparr>status = 201,
           body = JObj [(''message'', JStr ''Pendaftaran berhasil''),
                        (''user'', JObj [(''id'', JStr (uuidv4 e (uuid_ctr w))),
                                         (''email'', JStr (str_of (b_email req))),
                                         (''name'', JStr (str_of (b_name req)))]),
                        (''token'', JStr token)]\<rparr>"
    using a nil
    by (simp add: signup_def signup_try_def store_defs Let_def split: option.splits)
  show "console (snd (signup e req w)) = console w @ [(''Profile creation error:'', msg)]"
    using a nil
    by (simp add: signup_def signup_try_def store_defs Let_def split: option.splits)
next
  assume a: "truthy (b_email req_in) \<and> js_truthy (b_password req_in)
      \<and> fault e_in SigninSelectUser = None
      \<and> filter (\<lambda>r. u_email r = str_of (b_email req_in)) (users w_in) = [usr]
      \<and> bcrypt_compare_value e_in (b_password req_in) (u_password usr) = Inr True
      \<and> jwt_sign e_in \<lparr>c_id = u_id usr, c_email = u_email usr\<rparr> (JWT_SECRET e_in) ''7d'' (now e_in) = Inr token_in
      \<and> fault e_in SigninInsertSession = Some msg_in"
  show "fst (signin e_in req_in w_in) =
          \<lparr>status = 200,
           body = JObj [(''message'', JStr ''Login berhasil''),
                        (''user'', JObj [(''id'', JStr (u_id usr)),
                                         (''email'', JStr (u_email usr)),
                                         (''name'', JStr (u_name usr))]),
                        (''token'', JStr token_in)]\<rparr>"
    using a by (simp add: signin_def signin_try_def store_defs Let_def)
  show "console (snd (signin e_in req_in w_in)) = console w_in @ [(''Session creation error:'', msg_in)]"
    using a by (simp add: signin_def signin_try_def store_defs Let_def)
next
  assume a: "fault e_out LogoutDeleteSessions = Some msg_out"
  show "fst (logout e_out user req_out w_out) =
          \<lparr>status = 200, body = JObj [(''message'', JStr ''Logout berhasil'')]\<rparr>"
    using a by (simp add: logout_def store_defs Let_def)
  show "console (snd (logout e_out user req_out w_out)) = console w_out @ [(''Session deletion error:'', msg_out)]"
    using a by (simp add: logout_def store_defs Let_def)
qed

theorem secondary_write_failures_swallowed_witness:
  "fst (signup (failing SignupInsertProfile stub_env) signup_request stub_world) =
     \<lparr>status = 201,
      body = JObj [(''message'', JStr ''Pendaftaran berhasil''),
                   (''user'', JObj [(''id'', JStr ''uuid-''), (''email'', JStr ''b@x.com''),
                                    (''name'', JStr ''B'')]),
                   (''token'', JStr ''jwt.uuid-'')]\<rparr>
   \<and> console (snd (signup (failing SignupInsertProfile stub_env) signup_request stub_world)) =
       [(''Profile creation error:'', ''connection timed out'')]
   \<and> fst (signin (failing SigninInsertSession stub_env) signin_request stub_world) =
     \<lparr>status = 200,
      body = JObj [(''message'', JStr ''Login berhasil''),
                   (''user'', JObj [(''id'', JStr ''u1''), (''email'', JStr ''a@x.com''),
                                    (''name'', JStr ''A'')]),
                   (''token'', JStr ''jwt.u1'')]\<rparr>
   \<and> console (snd (signin (failing SigninInsertSession stub_env) signin_request stub_world)) =
       [(''Session creation error:'', ''connection timed out'')]
   \<and> fst (logout (failing LogoutDeleteSessions stub_env) alice blank_request stub_world) =
     \<lparr>status = 200, body = JObj [(''message'', JStr ''Logout berhasil'')]\<rparr>
   \<and> console (snd (logout (failing LogoutDeleteSessions stub_env) alice blank_request stub_world)) =
       [(''Session deletion error:'', ''connection timed out'')]"
  using secondary_write_failures_swallowed
    [where e = "failing SignupInsertProfile stub_env" and req = signup_request and w = stub_world
       and h = "''$2b$pw123456''" and token = "''jwt.uuid-''" and msg = "''connection timed out''"
       and e_in = "failing SigninInsertSession stub_env" and req_in = signin_request
       and w_in = stub_world and usr = alice and token_in = "''jwt.u1''"
       and msg_in = "''connection timed out''"
       and e_out = "failing LogoutDeleteSessions stub_env" and user = alice
       and req_out = blank_request and w_out = stub_world and msg_out = "''connection timed out''"]
  by (simp add: fixture_defs)

text \<open>
  Claim C5. A signup with the three fields present and an unregistered email, whose
  hash, user insert and token signature succeed, is answered with status 201, a user
  object of exactly id, email and name, and the token signed for claims \<open>c\<close> whose
  subject is the returned user id. The response is the same for any other password
  and hash: neither occurs in it.
\<close>

theorem signup_success_response:
  assumes present: "truthy (b_email req)" "js_truthy (b_password req)" "truthy (b_name req)"
    and unregistered: "\<forall>r \<in> set (users w). u_email r \<noteq> str_of (b_email req)"
    and hashed: "bcrypt_hash_value e (b_password req) 10 = Inr h"
    and inserted: "fault e SignupInsertUser = None"
    and subject: "c = \<lparr>c_id = uuidv4 e (uuid_ctr w), c_email = str_of (b_email req)\<rparr>"
    and signed: "jwt_sign e c (JWT_SECRET e) ''7d'' (now e) = Inr token"
    and other: "js_truthy pw_other" "bcrypt_hash_value e pw_other 10 = Inr h_other"
  shows "fst (signup e req w) =
           \<lparr>status = 201,
            body = JObj [(''message'', JStr ''Pendaftaran berhasil''),
                         (''user'', JObj [(''id'', JStr (c_id c)),
                                          (''email'', JStr (str_of (b_email req))),
                                          (''name'', JStr (str_of (b_name req)))]),
                         (''token'', JStr token)]\<rparr>
         \<and> fst (signup e (req\<lparr>b_password := pw_other\<rparr>) w) = fst (signup e req w)"
proof -
  have nil: "filter (\<lambda>r. u_email r = str_of (b_email req)) (users w) = []"
    using unregistered by (simp add: filter_empty_conv)
  have one: "fst (signup e req w) =
           \<lparr>status = 201,
            body = JObj [(''message'', JStr ''Pendaftaran berhasil''),
                         (''user'', JObj [(''id'', JStr (c_id c)),
                                          (''email'', JStr (str_of (b_email req))),
                                          (''name'', JStr (str_of (b_name req)))]),
                         (''token'', JStr token)]\<rparr>"
    using present nil hashed inserted signed [unfolded subject] subject
    by (simp add: signup_def signup_try_def store_defs Let_def split: option.splits)
  have two: "fst (signup e (req\<lparr>b_password := pw_other\<rparr>) w) =
           \<lparr>status = 201,
            body = JObj [(''message'', JStr ''Pendaftaran berhasil''),
                         (''user'', JObj [(''id'', JStr (c_id c)),
                                          (''email'', JStr (str_of (b_email req))),
                                          (''name'', JStr (str_of (b_name req)))]),
                         (''token'', JStr token)]\<rparr>"
    using present nil other inserted signed [unfolded subject] subject
    by (simp add: signup_def signup_try_def store_defs Let_def split: option.splits)
  show ?thesis using one two by simp
qed

theorem signup_success_response_witness:
  "fst (signup stub_env signup_request stub_world) =
     \<lparr>status = 201,
      body = JObj [(''message'', JStr ''Pendaftaran berhasil''),
                   (''user'', JObj [(''id'', JStr ''uuid-''), (''email'', JStr ''b@x.com''),
                                    (''name'', JStr ''B'')]),
                   (''token'', JStr ''jwt.uuid-'')]\<rparr>
   \<and> fst (signup stub_env (signup_request\<lparr>b_password := JS_string ''hunter2''\<rparr>) stub_world) =
       fst (signup stub_env signup_request stub_world)"
  using signup_success_response
    [where e = stub_env and req = signup_request and w = stub_world and h = "''$2b$pw123456''"
       and c = "\<lparr>c_id = ''uuid-'', c_email = ''b@x.com''\<rparr>" and token = "''jwt.uuid-''"
       and pw_other = "JS_string ''hunter2''" and h_other = "''$2b$hunter2''"]
  by (simp add: fixture_defs)

text \<open>
  Claim C6. On a protected endpoint a request whose Authorization header is absent or
  does not start with \<^verbatim>\<open>Bearer \<close>, whose token fails verification, or whose claims
  name a user the store does not resolve, is answered with status 401 and one and the
  same message, whatever the cause, and the handler has no part in the answer. In
  every other case the handler runs with the resolved identity. logout and the two
  profile routes are such endpoints.
\<close>

theorem protected_endpoint_gate:
  "(h_authorization req = None
      \<or> \<not> startsWith (str_of (h_authorization req)) ''Bearer ''
      \<or> (\<exists>invalid. jwt_verify e (drop 7 (str_of (h_authorization req))) (JWT_SECRET e) (now e)
                      = Inl invalid)
      \<or> (\<exists>decoded. jwt_verify e (drop 7 (str_of (h_authorization req))) (JWT_SECRET e) (now e)
                      = Inr decoded
            \<and> fst (fst (users_select_by_id e GateResolveUser (c_id decoded) w)) = None)
     \<longrightarrow> fst (protected handler e req w) =
           \<lparr>status = 401, body = JObj [(''message'', JStr (unauthorized_message e))]\<rparr>
         \<and> (\<forall>other. protected other e req w = protected handler e req w))
   \<and> (h_authorization req = Some header
       \<and> startsWith header ''Bearer ''
       \<and> jwt_verify e (drop 7 header) (JWT_SECRET e) (now e) = Inr decoded
       \<and> fst (fst (users_select_by_id e GateResolveUser (c_id decoded) w)) = Some identity
     \<longrightarrow> protected handler e req w =
           handler e identity req (issue (UsersSelectById (c_id decoded)) w))
   \<and> router POST_logout = protected logout
   \<and> router GET_profile = protected getProfile
   \<and> router PUT_profile = protected updateProfile"
proof (intro conjI impI)
  assume bad: "h_authorization req = None
      \<or> \<not> startsWith (str_of (h_authorization req)) ''Bearer ''
      \<or> (\<exists>invalid. jwt_verify e (drop 7 (str_of (h_authorization req))) (JWT_SECRET e) (now e)
                      = Inl invalid)
      \<or> (\<exists>decoded. jwt_verify e (drop 7 (str_of (h_authorization req))) (JWT_SECRET e) (now e)
                      = Inr decoded
            \<and> fst (fst (users_select_by_id e GateResolveUser (c_id decoded) w)) = None)"
  then have "\<exists>signal w'. authorization_gate e req w = (Rejected signal, w')"
    by (cases "h_authorization req")
       (auto simp: authorization_gate_def split: sum.splits prod.splits option.splits)
  then obtain signal w' where gate: "authorization_gate e req w = (Rejected signal, w')"
    by blast
  show "fst (protected handler e req w) =
           \<lparr>status = 401, body = JObj [(''message'', JStr (unauthorized_message e))]\<rparr>"
    by (simp add: protected_def gate unauthorized_def json_response_def)
  show "\<forall>other. protected other e req w = protected handler e req w"
    by (simp add: protected_def gate)
next
  assume "h_authorization req = Some header
       \<and> startsWith header ''Bearer ''
       \<and> jwt_verify e (drop 7 header) (JWT_SECRET e) (now e) = Inr decoded
       \<and> fst (fst (users_select_by_id e GateResolveUser (c_id decoded) w)) = Some identity"
  then show "protected handler e req w =
           handler e identity req (issue (UsersSelectById (c_id decoded)) w)"
    by (auto simp: protected_def authorization_gate_def users_select_by_id_def
        split: option.splits prod.splits)
qed simp_all

theorem protected_endpoint_gate_witness:
  "fst (router POST_logout stub_env blank_request stub_world) =
     \<lparr>status = 401, body = JObj [(''message'', JStr ''Unauthorized'')]\<rparr>
   \<and> fst (router GET_profile stub_env (blank_request\<lparr>h_authorization := Some ''Basic abc''\<rparr>)
            stub_world) =
     \<lparr>status = 401, body = JObj [(''message'', JStr ''Unauthorized'')]\<rparr>
   \<and> fst (router GET_profile stub_env (bearer_request ''expired'') stub_world) =
     \<lparr>status = 401, body = JObj [(''message'', JStr ''Unauthorized'')]\<rparr>
   \<and> fst (router PUT_profile stub_env (bearer_request ''jwt.u7'') stub_world) =
     \<lparr>status = 401, body = JObj [(''message'', JStr ''Unauthorized'')]\<rparr>
   \<and> router POST_logout stub_env (bearer_request ''jwt.u1'') stub_world =
       logout stub_env alice (bearer_request ''jwt.u1'') (issue (UsersSelectById ''u1'') stub_world)"
proof (intro conjI)
  have message: "unauthorized_message stub_env = ''Unauthorized''"
    by (simp add: fixture_defs)
  note absent = protected_endpoint_gate
    [where e = stub_env and req = blank_request and w = stub_world and handler = logout,
     THEN conjunct1, THEN mp, THEN conjunct1]
  show "fst (router POST_logout stub_env blank_request stub_world) =
     \<lparr>status = 401, body = JObj [(''message'', JStr ''Unauthorized'')]\<rparr>"
    unfolding router.simps message [symmetric]
    by (rule absent) (simp add: fixture_defs)
  note malformed = protected_endpoint_gate
    [where e = stub_env and req = "blank_request\<lparr>h_authorization := Some ''Basic abc''\<rparr>"
       and w = stub_world and handler = getProfile,
     THEN conjunct1, THEN mp, THEN conjunct1]
  show "fst (router GET_profile stub_env (blank_request\<lparr>h_authorization := Some ''Basic abc''\<rparr>)
            stub_world) =
     \<lparr>status = 401, body = JObj [(''message'', JStr ''Unauthorized'')]\<rparr>"
    unfolding router.simps message [symmetric]
    by (rule malformed) (simp add: fixture_defs startsWith_def)
  note invalid = protected_endpoint_gate
    [where e = stub_env and req = "bearer_request ''expired''" and w = stub_world
       and handler = getProfile,
     THEN conjunct1, THEN mp, THEN conjunct1]
  show "fst (router GET_profile stub_env (bearer_request ''expired'') stub_world) =
     \<lparr>status = 401, body = JObj [(''message'', JStr ''Unauthorized'')]\<rparr>"
    unfolding router.simps message [symmetric]
    by (rule invalid) (simp add: fixture_defs startsWith_def)
  note unknown = protected_endpoint_gate
    [where e = stub_env and req = "bearer_request ''jwt.u7''" and w = stub_world
       and handler = updateProfile,
     THEN conjunct1, THEN mp, THEN conjunct1]
  show "fst (router PUT_profile stub_env (bearer_request ''jwt.u7'') stub_world) =
     \<lparr>status = 401, body = JObj [(''message'', JStr ''Unauthorized'')]\<rparr>"
    unfolding router.simps message [symmetric]
    by (rule unknown) (simp add: fixture_defs startsWith_def users_select_by_id_def)
  note resolved = protected_endpoint_gate
    [where e = stub_env and req = "bearer_request ''jwt.u1''" and w = stub_world
       and handler = logout and header = "''Bearer jwt.u1''"
       and decoded = "\<lparr>c_id = ''u1'', c_email = []\<rparr>" and identity = alice,
     THEN conjunct2, THEN conjunct1, THEN mp]
  have "router POST_logout stub_env (bearer_request ''jwt.u1'') stub_world =
       logout stub_env alice (bearer_request ''jwt.u1'')
         (issue (UsersSelectById (c_id \<lparr>c_id = ''u1'', c_email = []\<rparr>)) stub_world)"
    unfolding router.simps
    by (rule resolved) (simp add: fixture_defs startsWith_def users_select_by_id_def)
  then show "router POST_logout stub_env (bearer_request ''jwt.u1'') stub_world =
       logout stub_env alice (bearer_request ''jwt.u1'') (issue (UsersSelectById ''u1'') stub_world)"
    by simp
qed

text \<open>
  Claim C7. updateProfile issues one update of \<^verbatim>\<open>users\<close> carrying exactly the truthy
  ones of name and phone, or none when both are falsy, and one update of \<^verbatim>\<open>profiles\<close>
  when avatar is truthy, none otherwise. A request with only phone sets the phone of
  the user's row and leaves names and profiles as they were. A request with no field
  leaves the world untouched and is answered 200.
\<close>

theorem updateProfile_partial_writes:
  "calls (snd (updateProfile e user req w)) =
      calls w
      @ (if truthy (b_name req) \<or> truthy (b_phone req)
         then [UsersUpdate \<lparr>upd_name = (if truthy (b_name req) then b_name req else None),
                            upd_phone = (if truthy (b_phone req) then b_phone req else None)\<rparr>
                 (u_id user)]
         else [])
      @ (if truthy (b_avatar req)
            \<and> (truthy (b_name req) \<or> truthy (b_phone req) \<longrightarrow> fault e UpdateProfileUsers = None)
         then [ProfilesUpdate (str_of (b_avatar req)) (u_id user)]
         else [])
   \<and> (\<not> truthy (b_name req) \<and> \<not> truthy (b_phone req)
        \<longrightarrow> users (snd (updateProfile e user req w)) = users w
          \<and> (\<forall>upd uid. UsersUpdate upd uid \<in> set (calls (snd (updateProfile e user req w)))
                \<longrightarrow> UsersUpdate upd uid \<in> set (calls w)))
   \<and> (\<not> truthy (b_avatar req)
        \<longrightarrow> profiles (snd (updateProfile e user req w)) = profiles w
          \<and> (\<forall>avatar uid. ProfilesUpdate avatar uid \<in> set (calls (snd (updateProfile e user req w)))
                \<longrightarrow> ProfilesUpdate avatar uid \<in> set (calls w)))
   \<and> (\<not> truthy (b_name req) \<and> truthy (b_phone req) \<and> \<not> truthy (b_avatar req)
       \<and> fault e UpdateProfileUsers = None
        \<longrightarrow> fst (updateProfile e user req w) =
              json_response 200 [(''message'', JStr ''Profil berhasil diperbarui'')]
          \<and> users (snd (updateProfile e user req w)) =
              map (\<lambda>r. if u_id r = u_id user then r\<lparr>u_phone := b_phone req\<rparr> else r) (users w)
          \<and> map u_name (users (snd (updateProfile e user req w))) = map u_name (users w)
          \<and> profiles (snd (updateProfile e user req w)) = profiles w)
   \<and> (\<not> truthy (b_name req) \<and> \<not> truthy (b_phone req) \<and> \<not> truthy (b_avatar req)
        \<longrightarrow> updateProfile e user req w =
              (json_response 200 [(''message'', JStr ''Profil berhasil diperbarui'')], w))"
proof (intro conjI impI)
  show "calls (snd (updateProfile e user req w)) =
      calls w
      @ (if truthy (b_name req) \<or> truthy (b_phone req)
         then [UsersUpdate \<lparr>upd_name = (if truthy (b_name req) then b_name req else None),
                            upd_phone = (if truthy (b_phone req) then b_phone req else None)\<rparr>
                 (u_id user)]
         else [])
      @ (if truthy (b_avatar req)
            \<and> (truthy (b_name req) \<or> truthy (b_phone req) \<longrightarrow> fault e UpdateProfileUsers = None)
         then [ProfilesUpdate (str_of (b_avatar req)) (u_id user)]
         else [])"
    by (cases "b_name req"; cases "b_phone req"; cases "b_avatar req";
        cases "fault e UpdateProfileUsers"; cases "fault e UpdateProfileProfiles")
       (simp_all add: updateProfile_def store_defs Let_def)
next
  assume a: "\<not> truthy (b_name req) \<and> \<not> truthy (b_phone req)"
  show "users (snd (updateProfile e user req w)) = users w"
    using a
    by (cases "b_avatar req"; cases "fault e UpdateProfileProfiles")
       (simp_all add: updateProfile_def store_defs Let_def)
  show "\<forall>upd uid. UsersUpdate upd uid \<in> set (calls (snd (updateProfile e user req w)))
                \<longrightarrow> UsersUpdate upd uid \<in> set (calls w)"
    using a
    by (cases "b_avatar req"; cases "fault e UpdateProfileProfiles")
       (simp_all add: updateProfile_def store_defs Let_def)
next
  assume a: "\<not> truthy (b_avatar req)"
  show "profiles (snd (updateProfile e user req w)) = profiles w"
    using a
    by (cases "b_name req"; cases "b_phone req"; cases "fault e UpdateProfileUsers")
       (simp_all add: updateProfile_def store_defs Let_def)
  show "\<forall>avatar uid. ProfilesUpdate avatar uid \<in> set (calls (snd (updateProfile e user req w)))
                \<longrightarrow> ProfilesUpdate avatar uid \<in> set (calls w)"
    using a
    by (cases "b_name req"; cases "b_phone req"; cases "fault e UpdateProfileUsers")
       (simp_all add: updateProfile_def store_defs Let_def)
next
  assume a: "\<not> truthy (b_name req) \<and> truthy (b_phone req) \<and> \<not> truthy (b_avatar req)
       \<and> fault e UpdateProfileUsers = None"
  show "fst (updateProfile e user req w) =
              json_response 200 [(''message'', JStr ''Profil berhasil diperbarui'')]"
    using a by (simp add: updateProfile_def store_defs Let_def)
  show u: "users (snd (updateProfile e user req w)) =
              map (\<lambda>r. if u_id r = u_id user then r\<lparr>u_phone := b_phone req\<rparr> else r) (users w)"
    using a by (cases "b_phone req") (simp_all add: updateProfile_def store_defs Let_def apply_user_updates_def)
  show "map u_name (users (snd (updateProfile e user req w))) = map u_name (users w)"
    unfolding u by (induction "users w") (simp_all add: comp_def)
  show "profiles (snd (updateProfile e user req w)) = profiles w"
    using a by (simp add: updateProfile_def store_defs Let_def)
next
  assume a: "\<not> truthy (b_name req) \<and> \<not> truthy (b_phone req) \<and> \<not> truthy (b_avatar req)"
  show "updateProfile e user req w =
              (json_response 200 [(''message'', JStr ''Profil berhasil diperbarui'')], w)"
    using a by (simp add: updateProfile_def store_defs Let_def)
qed

theorem updateProfile_partial_writes_witness:
  "fst (updateProfile stub_env alice (blank_request\<lparr>b_phone := Some ''555''\<rparr>) stub_world) =
     json_response 200 [(''message'', JStr ''Profil berhasil diperbarui'')]
   \<and> calls (snd (updateProfile stub_env alice (blank_request\<lparr>b_phone := Some ''555''\<rparr>) stub_world)) =
       [UsersUpdate \<lparr>upd_name = None, upd_phone = Some ''555''\<rparr> ''u1'']
   \<and> users (snd (updateProfile stub_env alice (blank_request\<lparr>b_phone := Some ''555''\<rparr>) stub_world)) =
       [alice\<lparr>u_phone := Some ''555''\<rparr>]
   \<and> updateProfile stub_env alice blank_request stub_world =
       (json_response 200 [(''message'', JStr ''Profil berhasil diperbarui'')], stub_world)"
  using updateProfile_partial_writes
    [where e = stub_env and user = alice and req = "blank_request\<lparr>b_phone := Some ''555''\<rparr>"
       and w = stub_world]
    updateProfile_partial_writes
    [where e = stub_env and user = alice and req = blank_request and w = stub_world]
  by (simp add: fixture_defs)

text \<open>
  Claim C8. When the user lookup of getProfile succeeds and the profile lookup fails,
  by a store error or because the user has no profile row (or several), the answer is
  200 with the user's columns and \<^verbatim>\<open>avatar: null\<close>.
\<close>

theorem getProfile_profile_lookup_failure:
  assumes user_found: "fault e GetProfileSelectUser = None"
      "filter (\<lambda>r. u_id r = u_id user) (users w) = [usr]"
    and profile_fails: "fault e GetProfileSelectProfile \<noteq> None
      \<or> (\<forall>p. filter (\<lambda>r. p_user_id r = u_id user) (profiles w) \<noteq> [p])"
  shows "fst (getProfile e user req w) =
           \<lparr>status = 200,
            body = JObj [(''user'', JObj [(''id'', JStr (u_id usr)), (''email'', JStr (u_email usr)),
                                          (''name'', JStr (u_name usr)), (''phone'', json_of (u_phone usr)),
                                          (''created_at'', JNum (u_created_at usr)),
                                          (''avatar'', JNull)])]\<rparr>"
proof (cases "fault e GetProfileSelectProfile")
  case (Some msg)
  then show ?thesis using user_found
    by (simp add: getProfile_def store_defs Let_def json_of_def js_or_def)
next
  case None
  then have no_row: "\<forall>p. filter (\<lambda>r. p_user_id r = u_id user) (profiles w) \<noteq> [p]"
    using profile_fails by simp
  then have "single (filter (\<lambda>r. p_user_id r = u_id user) (profiles w)) = (None, Some PGRST116)"
    by (simp add: single_no_row)
  then show ?thesis using user_found None
    by (simp add: getProfile_def store_defs Let_def json_of_def js_or_def)
qed

theorem getProfile_profile_lookup_failure_witness:
  "fst (getProfile stub_env alice blank_request stub_world) =
     \<lparr>status = 200,
      body = JObj [(''user'', JObj [(''id'', JStr ''u1''), (''email'', JStr ''a@x.com''),
                                    (''name'', JStr ''A''), (''phone'', JNull),
                                    (''created_at'', JNum 1), (''avatar'', JNull)])]\<rparr>"
  using getProfile_profile_lookup_failure
    [where e = stub_env and user = alice and w = stub_world and usr = alice and req = blank_request]
  by (simp add: fixture_defs json_of_def)

text \<open>
  Claim C9. logout always answers 200 and issues one delete on \<^verbatim>\<open>sessions\<close> keyed by
  the user id; when it succeeds, every session of that user is gone and the others
  stay. Users and profiles are untouched, and the Authorization Gate decides every
  later request, at any later time, as it would have without the logout.
\<close>

theorem logout_deletes_sessions_keeps_tokens:
  "fst (logout e user req w) = json_response 200 [(''message'', JStr ''Logout berhasil'')]
   \<and> calls (snd (logout e user req w)) = calls w @ [SessionsDelete (u_id user)]
   \<and> (fault e LogoutDeleteSessions = None
        \<longrightarrow> sessions (snd (logout e user req w)) =
              filter (\<lambda>r. s_user_id r \<noteq> u_id user) (sessions w)
          \<and> (\<forall>r \<in> set (sessions (snd (logout e user req w))). s_user_id r \<noteq> u_id user))
   \<and> users (snd (logout e user req w)) = users w
   \<and> profiles (snd (logout e user req w)) = profiles w
   \<and> fst (authorization_gate e_later req_later (snd (logout e user req w))) = fst (authorization_gate e_later req_later w)"
proof (intro conjI impI)
  show "fst (logout e user req w) = json_response 200 [(''message'', JStr ''Logout berhasil'')]"
    by (simp add: logout_def Let_def split: prod.splits)
  show "calls (snd (logout e user req w)) = calls w @ [SessionsDelete (u_id user)]"
    by (cases "fault e LogoutDeleteSessions") (simp_all add: logout_def store_defs Let_def)
  show us: "users (snd (logout e user req w)) = users w"
    by (cases "fault e LogoutDeleteSessions") (simp_all add: logout_def store_defs Let_def)
  show "profiles (snd (logout e user req w)) = profiles w"
    by (cases "fault e LogoutDeleteSessions") (simp_all add: logout_def store_defs Let_def)
  show "fst (authorization_gate e_later req_later (snd (logout e user req w))) = fst (authorization_gate e_later req_later w)"
    by (rule gate_reads_users) (rule us)
next
  assume a: "fault e LogoutDeleteSessions = None"
  show s: "sessions (snd (logout e user req w)) =
              filter (\<lambda>r. s_user_id r \<noteq> u_id user) (sessions w)"
    using a by (simp add: logout_def store_defs Let_def)
  show "\<forall>r \<in> set (sessions (snd (logout e user req w))). s_user_id r \<noteq> u_id user"
    unfolding s by simp
qed

theorem logout_deletes_sessions_keeps_tokens_witness:
  "fst (logout stub_env alice blank_request stub_world) =
     json_response 200 [(''message'', JStr ''Logout berhasil'')]
   \<and> calls (snd (logout stub_env alice blank_request stub_world)) = [SessionsDelete ''u1'']
   \<and> sessions (snd (logout stub_env alice blank_request stub_world)) =
       [\<lparr>s_id = ''s2'', s_user_id = ''u2'', s_ip_address = None, s_user_agent = None,
         s_last_activity = 3\<rparr>]
   \<and> fst (authorization_gate (stub_env\<lparr>now := 5000\<rparr>) (bearer_request ''jwt.u1'')
            (snd (logout stub_env alice blank_request stub_world))) = Resolved alice"
  using logout_deletes_sessions_keeps_tokens
    [where e = stub_env and user = alice and req = blank_request and w = stub_world
       and e_later = "stub_env\<lparr>now := 5000\<rparr>" and req_later = "bearer_request ''jwt.u1''"]
  by (simp add: fixture_defs authorization_gate_def users_select_by_id_def issue_def
      startsWith_def)

text \<open>
  Claim C10. When the existence lookup of signup returns an error, whatever it is,
  signup answers as it does for the same request on a store where the email is
  unregistered and the lookup is not disturbed: same response, same store requests,
  same console. It never answers the conflict response, and once the password is
  hashed the user insert is issued.
\<close>

theorem signup_lookup_error_ignored:
  assumes present: "truthy (b_email req)" "js_truthy (b_password req)" "truthy (b_name req)"
    and lookup_fails:
      "snd (fst (users_select_by_email e SignupSelectUser (str_of (b_email req)) w)) = Some err"
    and e_ok_def: "e_ok = e\<lparr>fault := (fault e)(SignupSelectUser := None)\<rparr>"
    and w_unreg_def: "w_unreg = w\<lparr>users := filter (\<lambda>r. u_email r \<noteq> str_of (b_email req)) (users w)\<rparr>"
  shows "fst (signup e req w) = fst (signup e_ok req w_unreg)
       \<and> calls (snd (signup e req w)) = calls (snd (signup e_ok req w_unreg))
       \<and> console (snd (signup e req w)) = console (snd (signup e_ok req w_unreg))
       \<and> fst (signup e req w) \<noteq> json_response 400 [(''message'', JStr ''Email sudah terdaftar'')]
       \<and> (bcrypt_hash_value e (b_password req) 10 = Inr h
            \<longrightarrow> UsersInsert \<lparr>u_id = uuidv4 e (uuid_ctr w), u_email = str_of (b_email req),
                              u_password = h, u_name = str_of (b_name req),
                              u_phone = js_or (b_phone req) None, u_created_at = now e\<rparr>
                  \<in> set (calls (snd (signup e req w))))"
proof -
  have data: "fst (fst (users_select_by_email e SignupSelectUser (str_of (b_email req)) w)) = None"
    using lookup_fails
    by (cases "filter (\<lambda>r. u_email r = str_of (b_email req)) (users w)" rule: single.cases)
       (auto simp: users_select_by_email_def split: option.splits)
  have nil: "filter (\<lambda>r. u_email r = str_of (b_email req)) (users w_unreg) = []"
    unfolding w_unreg_def by (simp add: filter_empty_conv)
  have data_ok: "fst (fst (users_select_by_email e_ok SignupSelectUser (str_of (b_email req)) w_unreg)) = None"
    using nil by (simp add: users_select_by_email_def e_ok_def)
  let ?em = "str_of (b_email req)"
  have shape: "fault e SignupSelectUser \<noteq> None \<or> (\<forall>r. filter (\<lambda>r. u_email r = ?em) (users w) \<noteq> [r])"
    using lookup_fails
    by (cases "filter (\<lambda>r. u_email r = ?em) (users w)" rule: single.cases)
       (auto simp: users_select_by_email_def split: option.splits)
  have sel: "users_select_by_email e SignupSelectUser ?em w =
               ((None, Some err), issue (UsersSelectByEmail ?em) w)"
    using shape lookup_fails
    by (cases "filter (\<lambda>r. u_email r = ?em) (users w)" rule: single.cases)
       (auto simp: users_select_by_email_def split: option.splits)
  have sel_ok: "users_select_by_email e_ok SignupSelectUser ?em w_unreg =
               ((None, Some PGRST116), issue (UsersSelectByEmail ?em) w_unreg)"
    using nil by (simp add: users_select_by_email_def e_ok_def)
  have hash_same:
    "bcrypt_hash_value (e\<lparr>fault := f\<rparr>) pw 10 = bcrypt_hash_value e pw 10" for pw f
    by (cases pw) (simp_all add: bcrypt_hash_value_def)
  have try_eq: "fst (signup_try e ?em pw nm ph w) = fst (signup_try e_ok ?em pw nm ph w_unreg)
      \<and> calls (snd (signup_try e ?em pw nm ph w)) = calls (snd (signup_try e_ok ?em pw nm ph w_unreg))
      \<and> console (snd (signup_try e ?em pw nm ph w)) = console (snd (signup_try e_ok ?em pw nm ph w_unreg))"
    for pw nm ph
    unfolding signup_try_def sel sel_ok
    by (cases "bcrypt_hash_value e pw 10"; cases "fault e SignupInsertUser";
        cases "fault e SignupInsertProfile";
        cases "jwt_sign e \<lparr>c_id = uuidv4 e (uuid_ctr w), c_email = ?em\<rparr> (JWT_SECRET e) ''7d'' (now e)")
       (simp_all add: hash_same e_ok_def w_unreg_def users_insert_def profiles_insert_def issue_def console_error_def
          fresh_uuid_def Let_def)
  have not_conflict:
    "fst (signup e req w) \<noteq> json_response 400 [(''message'', JStr ''Email sudah terdaftar'')]"
    using present unfolding signup_def signup_try_def sel
    by (cases "bcrypt_hash_value e (b_password req) 10"; cases "fault e SignupInsertUser";
        cases "fault e SignupInsertProfile";
        cases "jwt_sign e \<lparr>c_id = uuidv4 e (uuid_ctr w), c_email = ?em\<rparr> (JWT_SECRET e) ''7d'' (now e)")
       (simp_all add: users_insert_def profiles_insert_def issue_def console_error_def
          fresh_uuid_def json_response_def server_error_def Let_def)
  have inserts:
    "UsersInsert \<lparr>u_id = uuidv4 e (uuid_ctr w), u_email = ?em,
                  u_password = h, u_name = str_of (b_name req),
                  u_phone = js_or (b_phone req) None, u_created_at = now e\<rparr>
       \<in> set (calls (snd (signup e req w)))"
    if "bcrypt_hash_value e (b_password req) 10 = Inr h"
    using present that unfolding signup_def signup_try_def sel
    by (cases "fault e SignupInsertUser"; cases "fault e SignupInsertProfile";
        cases "jwt_sign e \<lparr>c_id = uuidv4 e (uuid_ctr w), c_email = ?em\<rparr> (JWT_SECRET e) ''7d'' (now e)")
       (simp_all add: users_insert_def profiles_insert_def issue_def console_error_def
          fresh_uuid_def json_response_def server_error_def Let_def)
  obtain a r where run: "signup_try e ?em (b_password req) (str_of (b_name req)) (b_phone req) w = (a, r)"
    by (cases "signup_try e ?em (b_password req) (str_of (b_name req)) (b_phone req) w")
  obtain a_ok r_ok where run_ok: "signup_try e_ok ?em (b_password req) (str_of (b_name req)) (b_phone req) w_unreg = (a_ok, r_ok)"
    by (cases "signup_try e_ok ?em (b_password req) (str_of (b_name req)) (b_phone req) w_unreg")
  have same: "a = a_ok" "calls r = calls r_ok" "console r = console r_ok"
    using try_eq [of "b_password req" "str_of (b_name req)" "b_phone req"] run run_ok
    by simp_all
  have "fst (signup e req w) = fst (signup e_ok req w_unreg)"
    using present same by (auto simp: signup_def run run_ok server_error_def split: sum.splits)
  moreover have "calls (snd (signup e req w)) = calls (snd (signup e_ok req w_unreg))"
    using present same
    by (auto simp: signup_def run run_ok server_error_def console_error_def split: sum.splits)
  moreover have "console (snd (signup e req w)) = console (snd (signup e_ok req w_unreg))"
    using present same
    by (auto simp: signup_def run run_ok server_error_def console_error_def split: sum.splits)
  ultimately show ?thesis using not_conflict inserts by blast
qed

theorem signup_lookup_error_ignored_witness:
  "fst (signup (failing SignupSelectUser stub_env) (signup_request\<lparr>b_email := Some ''a@x.com''\<rparr>)
          stub_world) =
     fst (signup stub_env (signup_request\<lparr>b_email := Some ''a@x.com''\<rparr>) (stub_world\<lparr>users := []\<rparr>))
   \<and> fst (signup (failing SignupSelectUser stub_env) (signup_request\<lparr>b_email := Some ''a@x.com''\<rparr>)
            stub_world) \<noteq>
       json_response 400 [(''message'', JStr ''Email sudah terdaftar'')]
   \<and> UsersInsert \<lparr>u_id = ''uuid-'', u_email = ''a@x.com'', u_password = ''$2b$pw123456'',
                   u_name = ''B'', u_phone = None, u_created_at = 1000\<rparr>
       \<in> set (calls (snd (signup (failing SignupSelectUser stub_env)
                              (signup_request\<lparr>b_email := Some ''a@x.com''\<rparr>) stub_world)))"
proof -
  have present: "truthy (b_email (signup_request\<lparr>b_email := Some ''a@x.com''\<rparr>))"
      "js_truthy (b_password (signup_request\<lparr>b_email := Some ''a@x.com''\<rparr>))"
      "truthy (b_name (signup_request\<lparr>b_email := Some ''a@x.com''\<rparr>))"
    by (simp_all add: fixture_defs)
  have lookup_fails:
    "snd (fst (users_select_by_email (failing SignupSelectUser stub_env) SignupSelectUser
                 (str_of (b_email (signup_request\<lparr>b_email := Some ''a@x.com''\<rparr>))) stub_world)) =
       Some ''connection timed out''"
    by (simp add: users_select_by_email_def fixture_defs)
  have e_ok: "stub_env =
      (failing SignupSelectUser stub_env)
        \<lparr>fault := (fault (failing SignupSelectUser stub_env))(SignupSelectUser := None)\<rparr>"
    by (simp add: fixture_defs fun_eq_iff)
  have w_unreg: "stub_world\<lparr>users := []\<rparr> =
      stub_world\<lparr>users := filter (\<lambda>r. u_email r \<noteq>
                     str_of (b_email (signup_request\<lparr>b_email := Some ''a@x.com''\<rparr>)))
                   (users stub_world)\<rparr>"
    by (simp add: fixture_defs)
  have hashed:
    "bcrypt_hash_value (failing SignupSelectUser stub_env)
       (b_password (signup_request\<lparr>b_email := Some ''a@x.com''\<rparr>)) 10 =
     Inr ''$2b$pw123456''"
    by (simp add: fixture_defs)
  have row:
    "\<lparr>u_id = uuidv4 (failing SignupSelectUser stub_env) (uuid_ctr stub_world),
      u_email = str_of (b_email (signup_request\<lparr>b_email := Some ''a@x.com''\<rparr>)),
      u_password = ''$2b$pw123456'',
      u_name = str_of (b_name (signup_request\<lparr>b_email := Some ''a@x.com''\<rparr>)),
      u_phone = js_or (b_phone (signup_request\<lparr>b_email := Some ''a@x.com''\<rparr>)) None,
      u_created_at = now (failing SignupSelectUser stub_env)\<rparr> =
     \<lparr>u_id = ''uuid-'', u_email = ''a@x.com'', u_password = ''$2b$pw123456'',
      u_name = ''B'', u_phone = None, u_created_at = 1000\<rparr>"
    by (simp add: fixture_defs js_or_def)
  show ?thesis
    using signup_lookup_error_ignored [OF present lookup_fails e_ok w_unreg, of "''$2b$pw123456''"]
      hashed
    unfolding row by blast
qed

end
